theory Spec2Isabelle
  imports Main
begin


section \<open>Controller orchestration: pkg/util/kubernetes/apiserver/controllers.go\<close>

text \<open>
  A Go \<open>error\<close> is modelled by the text of \<open>err.Error()\<close>; \<open>nil\<close> is \<open>None\<close>.
\<close>

type_synonym error = string

text \<open>
  \<open>controllerFuncs\<close> is the struct of the source. Both fields are Go closures that act on
  the state of the process (the configuration, the informer factory, the goroutines that have
  been spawned), which is the type \<open>'w\<close>: \<open>enabled\<close> reads it, \<open>start\<close> takes the
  \<open>ControllerContext\<close> (type \<open>'ctx\<close>), changes the state and returns its error.
\<close>

record ('ctx, 'w) controllerFuncs =
  enabled :: "'w \<Rightarrow> bool"
  start :: "'ctx \<Rightarrow> 'w \<Rightarrow> error option \<times> 'w"

text \<open>
  What \<open>StartControllers\<close> itself does, in the order in which it does it: each call of an
  entry's \<open>enabled\<close> with the value returned, each call of an entry's \<open>start\<close> with the error
  returned, the two log lines, and the call \<open>ctx.InformerFactory.Start(ctx.StopCh)\<close>.
\<close>

datatype event =
    EnabledCalled string bool
  | LogInfof string
  | StartCalled string "error option"
  | LogErrorf string error
  | InformerFactoryStart

text \<open>
  The body of \<open>for name, cntrlFuncs := range controllerCatalog\<close>. The catalog is a Go map,
  whose iteration order is not fixed: the list is the map's entries in the order of this
  iteration, so a statement about every list is a statement about every order.
\<close>

fun rangeCatalog ::
  "'ctx \<Rightarrow> (string \<times> ('ctx, 'w) controllerFuncs) list \<Rightarrow> 'w \<times> event list \<Rightarrow> 'w \<times> event list"
where
  "rangeCatalog ctx [] (w, tr) = (w, tr)"
| "rangeCatalog ctx ((name, cntrlFuncs) # rest) (w, tr) =
     (if \<not> enabled cntrlFuncs w
      then rangeCatalog ctx rest (w, tr @ [EnabledCalled name False, LogInfof name])
      else (case start cntrlFuncs ctx w of
              (None, w') \<Rightarrow>
                rangeCatalog ctx rest (w', tr @ [EnabledCalled name True, StartCalled name None])
            | (Some err, w') \<Rightarrow>
                rangeCatalog ctx rest
                  (w', tr @ [EnabledCalled name True, StartCalled name (Some err),
                             LogErrorf name err])))"

text \<open>
  \<open>StartControllers\<close>: the loop, then \<open>ctx.InformerFactory.Start(ctx.StopCh)\<close> (the parameter
  \<open>InformerFactory_Start\<close>, a method of client-go), then \<open>return nil\<close>. The result is the
  returned error, the state of the process and the trace.
\<close>

definition StartControllers ::
  "('ctx \<Rightarrow> 'w \<Rightarrow> 'w) \<Rightarrow> (string \<times> ('ctx, 'w) controllerFuncs) list \<Rightarrow> 'ctx \<Rightarrow> 'w
     \<Rightarrow> error option \<times> 'w \<times> event list"
where
  "StartControllers InformerFactory_Start controllerCatalog ctx w =
     (case rangeCatalog ctx controllerCatalog (w, []) of
        (w', tr) \<Rightarrow> (None, InformerFactory_Start ctx w', tr @ [InformerFactoryStart]))"

text \<open>
  The catalog of the source. \<open>config.Datadog.GetBool\<close> and the four start functions (which
  call \<open>NewMetadataController\<close>, \<open>SyncInformers\<close> and client-go) are parameters.
\<close>

definition controllerCatalog ::
  "('w \<Rightarrow> string \<Rightarrow> bool) \<Rightarrow> ('ctx \<Rightarrow> 'w \<Rightarrow> error option \<times> 'w) \<Rightarrow> ('ctx \<Rightarrow> 'w \<Rightarrow> error option \<times> 'w)
     \<Rightarrow> ('ctx \<Rightarrow> 'w \<Rightarrow> error option \<times> 'w) \<Rightarrow> ('ctx \<Rightarrow> 'w \<Rightarrow> error option \<times> 'w)
     \<Rightarrow> (string \<times> ('ctx, 'w) controllerFuncs) list"
where
  "controllerCatalog GetBool startMetadataController startAutoscalersController
       startServicesInformer startEndpointsInformer =
     [(''metadata'',
         \<lparr>enabled = (\<lambda>w. GetBool w ''kubernetes_collect_metadata_tags''),
          start = startMetadataController\<rparr>),
      (''autoscalers'',
         \<lparr>enabled = (\<lambda>w. GetBool w ''external_metrics_provider.enabled''),
          start = startAutoscalersController\<rparr>),
      (''services'',
         \<lparr>enabled = (\<lambda>w. GetBool w ''cluster_checks.enabled''),
          start = startServicesInformer\<rparr>),
      (''endpoints'',
         \<lparr>enabled = (\<lambda>w. GetBool w ''cluster_checks.enabled''),
          start = startEndpointsInformer\<rparr>)]"



text \<open>The three components of the result of \<open>StartControllers\<close>.\<close>

definition retErr :: "error option \<times> 'w \<times> event list \<Rightarrow> error option" where
  "retErr r = fst r"

definition retState :: "error option \<times> 'w \<times> event list \<Rightarrow> 'w" where
  "retState r = fst (snd r)"

definition retTrace :: "error option \<times> 'w \<times> event list \<Rightarrow> event list" where
  "retTrace r = snd (snd r)"

text \<open>The state and the trace of the loop alone, started on an empty trace.\<close>

definition loopState :: "'ctx \<Rightarrow> (string \<times> ('ctx, 'w) controllerFuncs) list \<Rightarrow> 'w \<Rightarrow> 'w" where
  "loopState ctx cat w = fst (rangeCatalog ctx cat (w, []))"

definition loopTrace ::
  "'ctx \<Rightarrow> (string \<times> ('ctx, 'w) controllerFuncs) list \<Rightarrow> 'w \<Rightarrow> event list" where
  "loopTrace ctx cat w = snd (rangeCatalog ctx cat (w, []))"

text \<open>
  A concrete run, for evaluation: the state is the list of the informers registered so far,
  the configuration enables \<open>metadata\<close>, \<open>services\<close> and \<open>endpoints\<close> and disables
  \<open>autoscalers\<close>, and the metadata controller fails to sync.
\<close>

definition demo_GetBool :: "string list \<Rightarrow> string \<Rightarrow> bool" where
  "demo_GetBool w key =
     (key \<in> set [''kubernetes_collect_metadata_tags'', ''cluster_checks.enabled''])"

definition demo_start ::
  "string \<Rightarrow> error option \<Rightarrow> unit \<Rightarrow> string list \<Rightarrow> error option \<times> string list" where
  "demo_start informer err ctx w = (err, w @ [informer])"

definition demo_catalog :: "(string \<times> (unit, string list) controllerFuncs) list" where
  "demo_catalog = controllerCatalog demo_GetBool
      (demo_start ''nodes'' (Some ''timed out''))
      (demo_start ''hpa'' None)
      (demo_start ''services'' None)
      (demo_start ''endpoints'' None)"

definition demo_run :: "error option \<times> string list \<times> event list" where
  "demo_run = StartControllers (\<lambda>ctx w. w @ [''dispatch'']) demo_catalog () []"

section \<open>The v1 query API: cmd/cluster-agent/api/v1/install.go\<close>

subsection \<open>What the handlers use of net/http, strconv, log and telemetry\<close>

text \<open>
  \<open>strconv.Itoa\<close>: the decimal digits of an \<open>int\<close>, with a minus sign when negative.
\<close>

function uitoa :: "nat \<Rightarrow> string" where
  "uitoa n = (if n < 10 then [''0123456789'' ! n]
              else uitoa (n div 10) @ [''0123456789'' ! (n mod 10)])"
  by pat_completeness auto
termination
  by (relation "measure id") auto

declare uitoa.simps [simp del]

definition Itoa :: "int \<Rightarrow> string" where
  "Itoa i = (if i < 0 then CHR ''-'' # uitoa (nat (- i)) else uitoa (nat i))"

definition StatusOK :: int where "StatusOK = 200"
definition StatusNotFound :: int where "StatusNotFound = 404"
definition StatusInternalServerError :: int where "StatusInternalServerError = 500"
definition StatusServiceUnavailable :: int where "StatusServiceUnavailable = 503"

text \<open>
  An \<open>http.ResponseWriter\<close>: the status code of the response, \<open>None\<close> as long as no header
  has been sent, and the bytes of the body written so far.
\<close>

record ResponseWriter =
  statusCode :: "int option"
  body :: string

datatype logLevel = TraceLevel | WarnLevel | ErrorLevel

text \<open>
  What a handler acts on: its response writer \<open>w\<close> (the field \<open>resp\<close>), the counter
  \<open>apiRequests\<close>, kept as the sequence of its \<open>Inc(handler, status)\<close> calls, and the log.
\<close>

record apiState =
  resp :: ResponseWriter
  apiRequests :: "(string \<times> string) list"
  logs :: "(logLevel \<times> string) list"

text \<open>
  \<open>w.WriteHeader(code)\<close> of net/http sends the header with the status code; once a header has
  been sent, a further call changes nothing (the server logs a superfluous call).
\<close>

definition WriteHeader :: "int \<Rightarrow> apiState \<Rightarrow> apiState" where
  "WriteHeader code s =
     (case statusCode (resp s) of
        None \<Rightarrow> s\<lparr>resp := (resp s)\<lparr>statusCode := Some code\<rparr>\<rparr>
      | Some sent \<Rightarrow> s)"

text \<open>
  \<open>w.Write(b)\<close> of net/http: if no header has been sent yet it sends
  \<open>WriteHeader(http.StatusOK)\<close> first, then appends the bytes to the body.
\<close>

definition Write :: "string \<Rightarrow> apiState \<Rightarrow> apiState" where
  "Write b s =
     (let s' = WriteHeader StatusOK s
      in s'\<lparr>resp := (resp s')\<lparr>body := body (resp s') @ b\<rparr>\<rparr>)"

text \<open>
  \<open>http.Error(w, error, code)\<close> of net/http: \<open>w.WriteHeader(code)\<close>, then
  \<open>fmt.Fprintln(w, error)\<close>. (The content-type headers it sets are left out.)
\<close>

definition http_Error :: "string \<Rightarrow> int \<Rightarrow> apiState \<Rightarrow> apiState" where
  "http_Error err code s = Write (err @ [CHR 0x0A]) (WriteHeader code s)"

text \<open>\<open>apiRequests.Inc(handler, status)\<close>.\<close>

definition apiRequests_Inc :: "string \<Rightarrow> string \<Rightarrow> apiState \<Rightarrow> apiState" where
  "apiRequests_Inc handler status s = s\<lparr>apiRequests := apiRequests s @ [(handler, status)]\<rparr>"

definition incrementRequestMetric :: "string \<Rightarrow> int \<Rightarrow> apiState \<Rightarrow> apiState" where
  "incrementRequestMetric handler status s = apiRequests_Inc handler (Itoa status) s"

definition log_msg :: "logLevel \<Rightarrow> string \<Rightarrow> apiState \<Rightarrow> apiState" where
  "log_msg lvl msg s = s\<lparr>logs := logs s @ [(lvl, msg)]\<rparr>"

text \<open>
  \<open>mux.Vars(r)[key]\<close>: the request is the map of its route variables; a Go map gives the
  empty string for a missing key.
\<close>

definition Vars :: "(string \<rightharpoonup> string) \<Rightarrow> string \<Rightarrow> string" where
  "Vars r key = (case r key of None \<Rightarrow> [] | Some v \<Rightarrow> v)"

text \<open>The state in which the server calls a handler: nothing sent, written, counted or logged.\<close>

definition newRequestState :: apiState where
  "newRequestState = \<lparr>resp = \<lparr>statusCode = None, body = []\<rparr>, apiRequests = [], logs = []\<rparr>"

subsection \<open>The handlers\<close>

text \<open>
  The collaborators of the handlers are not in this file of the repository and are parameters:
  \<open>as.GetNodeLabels\<close>, \<open>as.GetPodMetadataNames\<close>, \<open>as.GetMetadataMapBundleOnNode\<close>,
  \<open>as.GetAPIClient\<close>, \<open>as.GetMetadataMapBundleOnAllNodes\<close>, \<open>cloudfoundry.GetGlobalBBSCache\<close>,
  \<open>bbsCache.ExtractTags\<close> and \<open>json.Marshal\<close>. A Go result \<open>(v, err)\<close> of which only one
  component is used is a sum (\<open>Inl\<close> the error); where the handler uses both, it is a pair.
\<close>

definition getAllCFAppsMetadata ::
  "(error + 'c) \<Rightarrow> ('c \<Rightarrow> 't) \<Rightarrow> ('t \<Rightarrow> error + string) \<Rightarrow> (string \<rightharpoonup> string)
     \<Rightarrow> apiState \<Rightarrow> apiState"
where
  "getAllCFAppsMetadata GetGlobalBBSCache ExtractTags Marshal r s =
     (case GetGlobalBBSCache of
        Inl err \<Rightarrow>
          apiRequests_Inc ''getCFAppMetadata'' (Itoa StatusInternalServerError)
            (http_Error err StatusInternalServerError
              (log_msg ErrorLevel (''Could not retrieve BBS cache: '' @ err) s))
      | Inr bbsCache \<Rightarrow>
          (case Marshal (ExtractTags bbsCache) of
             Inl err \<Rightarrow>
               apiRequests_Inc ''getAllCFAppsMetadata'' (Itoa StatusInternalServerError)
                 (http_Error err StatusInternalServerError
                   (log_msg ErrorLevel
                      (''Could not process tags for CF applications: '' @ err) s))
           | Inr tagsBytes \<Rightarrow>
               (if length tagsBytes > 0
                then apiRequests_Inc ''getAllCFAppsMetadata'' (Itoa StatusOK)
                       (Write tagsBytes (WriteHeader StatusOK s))
                else s)))"

definition getNodeMetadata ::
  "(string \<Rightarrow> error + 'l) \<Rightarrow> ('l \<Rightarrow> error + string) \<Rightarrow> (string \<rightharpoonup> string)
     \<Rightarrow> apiState \<Rightarrow> apiState"
where
  "getNodeMetadata GetNodeLabels Marshal r s =
     (let nodeName = Vars r ''nodeName''
      in case GetNodeLabels nodeName of
        Inl err \<Rightarrow>
          apiRequests_Inc ''getNodeMetadata'' (Itoa StatusInternalServerError)
            (http_Error err StatusInternalServerError
              (log_msg ErrorLevel
                 (''Could not retrieve the node labels of '' @ nodeName @ '': '' @ err) s))
      | Inr nodeLabels \<Rightarrow>
          (case Marshal nodeLabels of
             Inl err \<Rightarrow>
               apiRequests_Inc ''getNodeMetadata'' (Itoa StatusInternalServerError)
                 (http_Error err StatusInternalServerError
                   (log_msg ErrorLevel
                      (''Could not process the labels of the node '' @ nodeName
                         @ '' from the informer's cache: '' @ err) s))
           | Inr labelBytes \<Rightarrow>
               (if length labelBytes > 0
                then apiRequests_Inc ''getNodeMetadata'' (Itoa StatusOK)
                       (Write labelBytes (WriteHeader StatusOK s))
                else Write (''Could not find labels on the node: '' @ nodeName)
                       (apiRequests_Inc ''getNodeMetadata'' (Itoa StatusNotFound)
                         (WriteHeader StatusNotFound s)))))"

definition getPodMetadata ::
  "(string \<Rightarrow> string \<Rightarrow> string \<Rightarrow> error + 'm) \<Rightarrow> ('m \<Rightarrow> error + string)
     \<Rightarrow> (string \<rightharpoonup> string) \<Rightarrow> apiState \<Rightarrow> apiState"
where
  "getPodMetadata GetPodMetadataNames Marshal r s =
     (let nodeName = Vars r ''nodeName'';
          podName = Vars r ''podName'';
          ns = Vars r ''ns''
      in case GetPodMetadataNames nodeName ns podName of
        Inl errMetaList \<Rightarrow>
          apiRequests_Inc ''getPodMetadata'' (Itoa StatusInternalServerError)
            (http_Error errMetaList StatusInternalServerError
              (log_msg ErrorLevel
                 (''Could not retrieve the metadata of: '' @ podName @ '' from the cache'') s))
      | Inr metaList \<Rightarrow>
          (case Marshal metaList of
             Inl err \<Rightarrow>
               apiRequests_Inc ''getPodMetadata'' (Itoa StatusInternalServerError)
                 (http_Error err StatusInternalServerError
                   (log_msg ErrorLevel
                      (''Could not process the list of services for: '' @ podName) s))
           | Inr metaBytes \<Rightarrow>
               (if length metaBytes \<noteq> 0
                then apiRequests_Inc ''getPodMetadata'' (Itoa StatusOK)
                       (Write metaBytes (WriteHeader StatusOK s))
                else Write (''Could not find associated metadata mapped to the pod: ''
                              @ podName @ '' on node: '' @ nodeName)
                       (apiRequests_Inc ''getPodMetadata'' (Itoa StatusNotFound)
                         (WriteHeader StatusNotFound s)))))"

definition getPodMetadataForNode ::
  "(string \<Rightarrow> 'm \<times> error option) \<Rightarrow> ('m \<Rightarrow> error + string) \<Rightarrow> (string \<rightharpoonup> string)
     \<Rightarrow> apiState \<Rightarrow> apiState"
where
  "getPodMetadataForNode GetMetadataMapBundleOnNode Marshal r s =
     (let nodeName = Vars r ''nodeName'';
          s1 = log_msg TraceLevel
                 (''Fetching metadata map on all pods of the node '' @ nodeName) s;
          (metaList, errNodes) = GetMetadataMapBundleOnNode nodeName;
          s2 = (case errNodes of
                  Some e \<Rightarrow>
                    log_msg WarnLevel
                      (''Could not collect the service map for '' @ nodeName @ '', err: '' @ e) s1
                | None \<Rightarrow> s1)
      in case Marshal metaList of
        Inl err \<Rightarrow>
          apiRequests_Inc ''getPodMetadataForNode'' (Itoa StatusInternalServerError)
            (http_Error err StatusInternalServerError s2)
      | Inr slcB \<Rightarrow>
          (if length slcB \<noteq> 0
           then apiRequests_Inc ''getPodMetadataForNode'' (Itoa StatusOK)
                  (Write slcB (WriteHeader StatusOK s2))
           else apiRequests_Inc ''getPodMetadata'' (Itoa StatusNotFound)
                  (WriteHeader StatusNotFound s2)))"

definition getAllMetadata ::
  "(error + 'cl) \<Rightarrow> ('cl \<Rightarrow> 'm \<times> error option) \<Rightarrow> ('m \<Rightarrow> error + string)
     \<Rightarrow> (string \<rightharpoonup> string) \<Rightarrow> apiState \<Rightarrow> apiState"
where
  "getAllMetadata GetAPIClient GetMetadataMapBundleOnAllNodes Marshal r s =
     (let s1 = log_msg TraceLevel ''Computing metadata map on all nodes'' s
      in case GetAPIClient of
        Inl err \<Rightarrow>
          apiRequests_Inc ''getAllMetadata'' (Itoa StatusInternalServerError)
            (http_Error err StatusInternalServerError
              (log_msg ErrorLevel
                 (''Can't create client to query the API Server: '' @ err) s1))
      | Inr cl \<Rightarrow>
          (let (metaList, errAPIServer) = GetMetadataMapBundleOnAllNodes cl;
               s2 = (case errAPIServer of
                       Some e \<Rightarrow>
                         log_msg ErrorLevel
                           (''There was an error querying the nodes from the API: '' @ e)
                           (WriteHeader StatusServiceUnavailable s1)
                     | None \<Rightarrow> WriteHeader StatusOK s1)
           in case Marshal metaList of
             Inl err \<Rightarrow>
               apiRequests_Inc ''getAllMetadata'' (Itoa StatusInternalServerError)
                 (http_Error err StatusInternalServerError s2)
           | Inr metaListBytes \<Rightarrow>
               (if length metaListBytes \<noteq> 0
                then apiRequests_Inc ''getAllMetadata'' (Itoa StatusOK)
                       (Write metaListBytes s2)
                else apiRequests_Inc ''getAllMetadata'' (Itoa StatusNotFound)
                       (WriteHeader StatusNotFound s2))))"

text \<open>
  Concrete collaborators, for evaluation. A node lookup that fails with the message of the
  docstring of \<open>getNodeMetadata\<close>; a node lookup that finds no labels; an encoder that gives
  the JSON text \<open>null\<close>, and one that gives the JSON array of a list of strings that need
  no escaping; a client that is available; an aggregate that is partial and one that is
  complete.
\<close>

definition demo_GetNodeLabels_err :: "string \<Rightarrow> error + string list" where
  "demo_GetNodeLabels_err nodeName = Inl (''no cached metadata found for the node '' @ nodeName)"

definition demo_GetNodeLabels_nil :: "string \<Rightarrow> error + string list" where
  "demo_GetNodeLabels_nil nodeName = Inr []"

definition demo_Marshal_null :: "string list \<Rightarrow> error + string" where
  "demo_Marshal_null v = Inr ''null''"



definition demo_request :: "string \<rightharpoonup> string" where
  "demo_request = [''nodeName'' \<mapsto> ''unknown'']"

definition demo_GetAPIClient :: "error + unit" where
  "demo_GetAPIClient = Inr ()"

definition demo_AllNodes_partial :: "unit \<Rightarrow> string list \<times> error option" where
  "demo_AllNodes_partial cl = ([''n1''], Some ''node n2: not found in the cache'')"

definition demo_AllNodes_complete :: "unit \<Rightarrow> string list \<times> error option" where
  "demo_AllNodes_complete cl = ([''n1'', ''n2''], None)"

definition demo_OnNode_empty :: "string \<Rightarrow> string list \<times> error option" where
  "demo_OnNode_empty nodeName = ([], None)"

definition demo_GetGlobalBBSCache_err :: "error + unit" where
  "demo_GetGlobalBBSCache_err = Inl ''global BBS cache not configured''"

definition demo_ExtractTags :: "unit \<Rightarrow> string list" where
  "demo_ExtractTags c = []"

section \<open>The metadata aggregator\<close>

text \<open>
  Modelled from the spec: the aggregator behind \<open>NewMetadataController\<close> (its bundles and its
  Node and Endpoint event handlers) is not among the source files. The definitions below follow
  sections 3 and 4.3 of the specification: \<open>NodeTagBundle\<close> maps a node name to its set of
  labels, \<open>PodTagBundle\<close> maps a node name to a map from (namespace, pod name) to a set of
  tags. An event carries the snapshot of its resource: a Node event the node's name and
  labels, an Endpoint event the service name and its backends, each a pod with its owning
  node. Node add and update replace the node's entry, Node delete removes it; Endpoint add
  and update add the tag \<open>kube_service:<serviceName>\<close> to the tag set of every backend pod
  under the pod's node. The specification leaves the policy of Endpoint delete open, so that
  event is not modelled.
\<close>

type_synonym NodeTagBundle = "string \<rightharpoonup> string set"

type_synonym PodTagBundle = "string \<rightharpoonup> (string \<times> string \<rightharpoonup> string set)"

record bundles =
  nodeTagBundle :: NodeTagBundle
  podTagBundle :: PodTagBundle

datatype aggregatorEvent =
    NodeAdd string "string set"
  | NodeUpdate string "string set"
  | NodeDelete string
  | EndpointAdd string "(string \<times> string \<times> string) list"
  | EndpointUpdate string "(string \<times> string \<times> string) list"

text \<open>Modelled from the spec: bundles are created empty at aggregator start.\<close>

definition emptyBundles :: bundles where
  "emptyBundles = \<lparr>nodeTagBundle = Map.empty, podTagBundle = Map.empty\<rparr>"

text \<open>
  Modelled from the spec: add or refresh one tag for the backend (node, namespace, pod); tags
  are a set.
\<close>

definition addTag :: "string \<Rightarrow> string \<times> string \<times> string \<Rightarrow> PodTagBundle \<Rightarrow> PodTagBundle" where
  "addTag tag backend pb =
     (case backend of (nodeName, podKey) \<Rightarrow>
        (let pods = (case pb nodeName of None \<Rightarrow> Map.empty | Some m \<Rightarrow> m);
             tags = (case pods podKey of None \<Rightarrow> {} | Some t \<Rightarrow> t)
         in pb(nodeName \<mapsto> pods(podKey \<mapsto> insert tag tags))))"

definition serviceTag :: "string \<Rightarrow> string" where
  "serviceTag serviceName = ''kube_service:'' @ serviceName"

text \<open>Modelled from the spec: the event-application function of the aggregator.\<close>

fun applyEvent :: "aggregatorEvent \<Rightarrow> bundles \<Rightarrow> bundles" where
  "applyEvent (NodeAdd nodeName labels) b =
     b\<lparr>nodeTagBundle := (nodeTagBundle b)(nodeName \<mapsto> labels)\<rparr>"
| "applyEvent (NodeUpdate nodeName labels) b =
     b\<lparr>nodeTagBundle := (nodeTagBundle b)(nodeName \<mapsto> labels)\<rparr>"
| "applyEvent (NodeDelete nodeName) b =
     b\<lparr>nodeTagBundle := (nodeTagBundle b)(nodeName := None)\<rparr>"
| "applyEvent (EndpointAdd serviceName backends) b =
     b\<lparr>podTagBundle := fold (addTag (serviceTag serviceName)) backends (podTagBundle b)\<rparr>"
| "applyEvent (EndpointUpdate serviceName backends) b =
     b\<lparr>podTagBundle := fold (addTag (serviceTag serviceName)) backends (podTagBundle b)\<rparr>"

text \<open>Modelled from the spec: the queries \<open>byNode\<close> and \<open>byPod\<close>; \<open>None\<close> is not-found.\<close>

definition byNode :: "bundles \<Rightarrow> string \<Rightarrow> string set option" where
  "byNode b nodeName = nodeTagBundle b nodeName"

definition byPod :: "bundles \<Rightarrow> string \<Rightarrow> string \<Rightarrow> string \<Rightarrow> string set option" where
  "byPod b nodeName ns podName =
     (case podTagBundle b nodeName of None \<Rightarrow> None | Some pods \<Rightarrow> pods (ns, podName))"

definition isAdd :: "aggregatorEvent \<Rightarrow> bool" where
  "isAdd e = (case e of NodeAdd n l \<Rightarrow> True | EndpointAdd svc bs \<Rightarrow> True | _ \<Rightarrow> False)"

definition demo_endpoint_add :: aggregatorEvent where
  "demo_endpoint_add =
     EndpointAdd ''svc-a'' [(''n1'', ''default'', ''p1''), (''n1'', ''default'', ''p2'')]"

section \<open>The process around the orchestration\<close>


text \<open>
  What the process does, in order: the events of the orchestration, then for every runtime
  step the query served (with the status sent and the counter increments) or the event
  applied.
\<close>

datatype processEvent =
    Orchestration event
  | QueryServed "int option" "(string \<times> string) list"
  | EventApplied aggregatorEvent

record 'w process =
  world :: 'w
  tagBundles :: bundles
  ptrace :: "processEvent list"







section \<open>Properties of the orchestration\<close>

lemma rangeCatalog_acc:
  "rangeCatalog ctx cat (w, tr) =
     (fst (rangeCatalog ctx cat (w, [])), tr @ snd (rangeCatalog ctx cat (w, [])))"
proof (induction cat arbitrary: w tr)
  case Nil
  show ?case by simp
next
  case (Cons a cat)
  obtain name cf where a: "a = (name, cf)" by (cases a)
  show ?case
    unfolding a
    apply (simp split: prod.splits option.splits)
    apply (intro conjI impI allI)
      apply (subst Cons.IH, subst (2 3) Cons.IH, simp)+
    done
qed


lemma rangeCatalog_snd_Cons:
  "snd (rangeCatalog ctx cat (w, x # xs)) = (x # xs) @ snd (rangeCatalog ctx cat (w, []))"
  by (subst rangeCatalog_acc) simp

lemma rangeCatalog_fst_Cons:
  "fst (rangeCatalog ctx cat (w, x # xs)) = fst (rangeCatalog ctx cat (w, []))"
  by (subst rangeCatalog_acc) simp

lemma loopTrace_Nil: "loopTrace ctx [] w = []" by (simp add: loopTrace_def)

lemma loopTrace_Cons:
  "loopTrace ctx ((name, cf) # rest) w =
     (if \<not> enabled cf w then [EnabledCalled name False, LogInfof name] @ loopTrace ctx rest w
      else [EnabledCalled name True, StartCalled name (fst (start cf ctx w))]
           @ (case fst (start cf ctx w) of None \<Rightarrow> [] | Some err \<Rightarrow> [LogErrorf name err])
           @ loopTrace ctx rest (snd (start cf ctx w)))"
  unfolding loopTrace_def
  by (simp add: rangeCatalog_snd_Cons split: prod.splits option.splits)

lemma loopTrace_no_dispatch: "InformerFactoryStart \<notin> set (loopTrace ctx cat w)"
proof (induction cat arbitrary: w)
  case Nil
  show ?case by (simp add: loopTrace_Nil)
next
  case (Cons a cat)
  obtain name cf where a: "a = (name, cf)" by (cases a)
  show ?case unfolding a
    by (simp add: loopTrace_Cons Cons.IH split: prod.splits option.splits)
qed

lemma loopTrace_names:
  "EnabledCalled n b \<in> set (loopTrace ctx cat w) \<Longrightarrow> n \<in> fst ` set cat"
  "StartCalled n e \<in> set (loopTrace ctx cat w) \<Longrightarrow> n \<in> fst ` set cat"
proof (induction cat arbitrary: w)
  case Nil
  { case 1 then show ?case by (simp add: loopTrace_Nil) }
  { case 2 then show ?case by (simp add: loopTrace_Nil) }
next
  case (Cons a cat)
  obtain name cf where a: "a = (name, cf)" by (cases a)
  { case 1 then show ?case unfolding a
      by (auto simp: loopTrace_Cons split: prod.splits option.splits if_splits dest: Cons.IH(1)) }
  { case 2 then show ?case unfolding a
      by (auto simp: loopTrace_Cons split: prod.splits option.splits if_splits dest: Cons.IH(2)) }
qed

lemma loopTrace_every_entry:
  "n \<in> fst ` set cat \<Longrightarrow> \<exists>b. EnabledCalled n b \<in> set (loopTrace ctx cat w)"
proof (induction cat arbitrary: w)
  case Nil
  then show ?case by simp
next
  case (Cons a cat)
  obtain name cf where a: "a = (name, cf)" by (cases a)
  show ?case
  proof (cases "n = name")
    case True
    then show ?thesis unfolding a
      by (cases "enabled cf w") (auto simp: loopTrace_Cons)
  next
    case False
    with Cons.prems a have "n \<in> fst ` set cat" by auto
    from Cons.IH [OF this] show ?thesis unfolding a
      by (auto simp: loopTrace_Cons split: prod.splits option.splits)
  qed
qed

lemma loopTrace_enabled_started:
  "EnabledCalled n True \<in> set (loopTrace ctx cat w) \<Longrightarrow>
     \<exists>e. StartCalled n e \<in> set (loopTrace ctx cat w)"
proof (induction cat arbitrary: w)
  case Nil
  then show ?case by (simp add: loopTrace_Nil)
next
  case (Cons a cat)
  obtain name cf where a: "a = (name, cf)" by (cases a)
  from Cons.prems show ?case unfolding a
    by (auto simp: loopTrace_Cons split: prod.splits option.splits if_splits dest: Cons.IH)
qed

lemma loopTrace_disabled_not_started:
  "distinct (map fst cat) \<Longrightarrow> EnabledCalled n False \<in> set (loopTrace ctx cat w) \<Longrightarrow>
     StartCalled n e \<notin> set (loopTrace ctx cat w)"
proof (induction cat arbitrary: w)
  case Nil
  then show ?case by (simp add: loopTrace_Nil)
next
  case (Cons a cat)
  obtain name cf where a: "a = (name, cf)" by (cases a)
  from Cons.prems show ?case unfolding a
    by (auto simp: loopTrace_Cons split: prod.splits option.splits if_splits
          dest: Cons.IH loopTrace_names)
qed



lemma retTrace_StartControllers:
  "retTrace (StartControllers IFS cat ctx w) = loopTrace ctx cat w @ [InformerFactoryStart]"
  by (simp add: retTrace_def StartControllers_def loopTrace_def split: prod.splits)

lemma retState_StartControllers:
  "retState (StartControllers IFS cat ctx w) = IFS ctx (loopState ctx cat w)"
  by (simp add: retState_def StartControllers_def loopState_def split: prod.splits)

lemma demo_run_eq:
  "demo_run = (None, [''nodes'', ''services'', ''endpoints'', ''dispatch''],
     [EnabledCalled ''metadata'' True, StartCalled ''metadata'' (Some ''timed out''),
      LogErrorf ''metadata'' ''timed out'',
      EnabledCalled ''autoscalers'' False, LogInfof ''autoscalers'',
      EnabledCalled ''services'' True, StartCalled ''services'' None,
      EnabledCalled ''endpoints'' True, StartCalled ''endpoints'' None,
      InformerFactoryStart])"
  by (simp add: demo_run_def StartControllers_def demo_catalog_def controllerCatalog_def
        demo_GetBool_def demo_start_def)

lemma demo_catalog_names:
  "map fst demo_catalog = [''metadata'', ''autoscalers'', ''services'', ''endpoints'']"
  by (simp add: demo_catalog_def controllerCatalog_def)

text \<open>
  C1. \<open>StartControllers\<close> calls \<open>ctx.InformerFactory.Start\<close> once, as its last action: the
  call is the last event of the trace and does not occur before; before it, the predicate of
  every catalog entry has been called and the \<open>start\<close> of every entry whose predicate returned
  true has been called and has returned; and the factory is started on the state that the loop
  over the whole catalog has left. So no dispatch begins before every enabled controller has
  registered its subscriptions.
\<close>

theorem StartControllers_dispatch_after_entries:
  "last (retTrace (StartControllers IFS cat ctx w)) = InformerFactoryStart \<and>
   InformerFactoryStart \<notin> set (butlast (retTrace (StartControllers IFS cat ctx w))) \<and>
   (\<forall>n \<in> fst ` set cat.
      \<exists>b. EnabledCalled n b \<in> set (butlast (retTrace (StartControllers IFS cat ctx w)))) \<and>
   (\<forall>n. EnabledCalled n True \<in> set (butlast (retTrace (StartControllers IFS cat ctx w))) \<longrightarrow>
      (\<exists>e. StartCalled n e \<in> set (butlast (retTrace (StartControllers IFS cat ctx w))))) \<and>
   retState (StartControllers IFS cat ctx w) = IFS ctx (loopState ctx cat w)"
  unfolding retTrace_StartControllers retState_StartControllers
  by (simp add: loopTrace_no_dispatch loopTrace_every_entry loopTrace_enabled_started)

theorem StartControllers_dispatch_after_entries_witness:
  "''metadata'' \<in> fst ` set demo_catalog \<and>
   EnabledCalled ''metadata'' True \<in> set (butlast (retTrace demo_run)) \<and>
   (\<exists>e. StartCalled ''metadata'' e \<in> set (butlast (retTrace demo_run))) \<and>
   last (retTrace demo_run) = InformerFactoryStart \<and>
   InformerFactoryStart \<notin> set (butlast (retTrace demo_run))"
proof -
  have m: "''metadata'' \<in> fst ` set demo_catalog"
    by (simp add: demo_catalog_def controllerCatalog_def)
  have en: "EnabledCalled ''metadata'' True \<in> set (butlast (retTrace demo_run))"
    by (simp add: demo_run_eq retTrace_def)
  note t = StartControllers_dispatch_after_entries
             [of "\<lambda>ctx w. w @ [''dispatch'']" demo_catalog "()" "[]", folded demo_run_def]
  from t en have "\<exists>e. StartCalled ''metadata'' e \<in> set (butlast (retTrace demo_run))"
    by blast
  with t m en show ?thesis by blast
qed

text \<open>
  C2. When the \<open>start\<close> of one entry returns an error, the loop goes on: every entry of the
  catalog still has its predicate called, and either the predicate returned false or the
  entry's \<open>start\<close> was called; and \<open>ctx.InformerFactory.Start\<close> is still called.
\<close>

theorem StartControllers_failure_contained:
  "StartCalled n (Some err) \<in> set (retTrace (StartControllers IFS cat ctx w)) \<Longrightarrow>
     (\<forall>m \<in> fst ` set cat.
        EnabledCalled m False \<in> set (retTrace (StartControllers IFS cat ctx w)) \<or>
        (\<exists>e. StartCalled m e \<in> set (retTrace (StartControllers IFS cat ctx w)))) \<and>
     InformerFactoryStart \<in> set (retTrace (StartControllers IFS cat ctx w))"
proof -
  have tr: "set (retTrace (StartControllers IFS cat ctx w))
              = insert InformerFactoryStart (set (loopTrace ctx cat w))"
    by (simp add: retTrace_StartControllers)
  have "EnabledCalled m False \<in> set (loopTrace ctx cat w) \<or>
        (\<exists>e. StartCalled m e \<in> set (loopTrace ctx cat w))"
    if m: "m \<in> fst ` set cat" for m
  proof -
    from loopTrace_every_entry [OF m] obtain b
      where b: "EnabledCalled m b \<in> set (loopTrace ctx cat w)" by blast
    show ?thesis
    proof (cases b)
      case True
      with b have "EnabledCalled m True \<in> set (loopTrace ctx cat w)" by simp
      then show ?thesis by (rule loopTrace_enabled_started [THEN disjI2])
    next
      case False
      with b have "EnabledCalled m False \<in> set (loopTrace ctx cat w)" by simp
      then show ?thesis by (rule disjI1)
    qed
  qed
  then show ?thesis unfolding tr by simp
qed

theorem StartControllers_failure_contained_witness:
  "StartCalled ''metadata'' (Some ''timed out'') \<in> set (retTrace demo_run) \<and>
   ''endpoints'' \<in> fst ` set demo_catalog \<and>
   EnabledCalled ''endpoints'' False \<notin> set (retTrace demo_run) \<and>
   (\<exists>e. StartCalled ''endpoints'' e \<in> set (retTrace demo_run)) \<and>
   InformerFactoryStart \<in> set (retTrace demo_run)"
proof -
  have f: "StartCalled ''metadata'' (Some ''timed out'') \<in> set (retTrace demo_run)"
    by (simp add: demo_run_eq retTrace_def)
  have m: "''endpoints'' \<in> fst ` set demo_catalog"
    by (simp add: demo_catalog_def controllerCatalog_def)
  have d: "EnabledCalled ''endpoints'' False \<notin> set (retTrace demo_run)"
    by (simp add: demo_run_eq retTrace_def)
  note t = StartControllers_failure_contained
             [of "''metadata''" "''timed out''" "\<lambda>ctx w. w @ [''dispatch'']" demo_catalog "()" "[]",
              folded demo_run_def, OF f]
  from t have t1: "\<forall>m \<in> fst ` set demo_catalog.
        EnabledCalled m False \<in> set (retTrace demo_run) \<or>
        (\<exists>e. StartCalled m e \<in> set (retTrace demo_run))"
    and t2: "InformerFactoryStart \<in> set (retTrace demo_run)"
    by (rule conjunct1, rule conjunct2)
  from bspec [OF t1 m] d have "\<exists>e. StartCalled ''endpoints'' e \<in> set (retTrace demo_run)"
    by blast
  with f m d t2 show ?thesis by (intro conjI)
qed

text \<open>
  C3. The keys of a Go map are distinct. An entry whose \<open>enabled()\<close> returned false in the
  run has no call of its \<open>start\<close> anywhere in the run.
\<close>

theorem StartControllers_disabled_never_started:
  "distinct (map fst cat) \<Longrightarrow>
   EnabledCalled n False \<in> set (retTrace (StartControllers IFS cat ctx w)) \<Longrightarrow>
   StartCalled n e \<notin> set (retTrace (StartControllers IFS cat ctx w))"
  by (simp add: retTrace_StartControllers loopTrace_disabled_not_started)

theorem StartControllers_disabled_never_started_witness:
  "distinct (map fst demo_catalog) \<and>
   EnabledCalled ''autoscalers'' False \<in> set (retTrace demo_run) \<and>
   StartCalled ''autoscalers'' None \<notin> set (retTrace demo_run)"
proof -
  have d: "distinct (map fst demo_catalog)"
    by (simp add: demo_catalog_names)
  have f: "EnabledCalled ''autoscalers'' False \<in> set (retTrace demo_run)"
    by (simp add: demo_run_eq retTrace_def)
  from StartControllers_disabled_never_started
         [of demo_catalog "''autoscalers''" "\<lambda>ctx w. w @ [''dispatch'']" "()" "[]" None,
          folded demo_run_def, OF d f] d f
  show ?thesis by blast
qed


text \<open>
  C10. \<open>StartControllers\<close> returns \<open>nil\<close> for every catalog, context and state, whatever the
  start functions return.
\<close>

theorem StartControllers_returns_nil:
  "retErr (StartControllers IFS cat ctx w) = None"
  by (simp add: retErr_def StartControllers_def split: prod.splits)


section \<open>Properties of the query API\<close>

lemma Itoa_StatusOK: "Itoa StatusOK = ''200''"
  by (simp add: Itoa_def StatusOK_def uitoa.simps)

lemma Itoa_StatusNotFound: "Itoa StatusNotFound = ''404''"
  by (simp add: Itoa_def StatusNotFound_def uitoa.simps)

lemma Itoa_StatusInternalServerError: "Itoa StatusInternalServerError = ''500''"
  by (simp add: Itoa_def StatusInternalServerError_def uitoa.simps)

lemma Itoa_StatusServiceUnavailable: "Itoa StatusServiceUnavailable = ''503''"
  by (simp add: Itoa_def StatusServiceUnavailable_def uitoa.simps)

lemma Itoa_numerals:
  "Itoa 200 = ''200''" "Itoa 404 = ''404''" "Itoa 500 = ''500''" "Itoa 503 = ''503''"
  by (simp_all add: Itoa_def uitoa.simps)

lemmas Itoa_status =
  Itoa_StatusOK Itoa_StatusNotFound Itoa_StatusInternalServerError Itoa_StatusServiceUnavailable
  Itoa_numerals

lemmas status_defs =
  StatusOK_def StatusNotFound_def StatusInternalServerError_def StatusServiceUnavailable_def

text \<open>What each primitive does to the three observable parts of the state.\<close>

lemma log_msg_obs:
  "resp (log_msg lvl msg s) = resp s"
  "apiRequests (log_msg lvl msg s) = apiRequests s"
  by (simp_all add: log_msg_def)

lemma apiRequests_Inc_obs:
  "resp (apiRequests_Inc h st s) = resp s"
  "apiRequests (apiRequests_Inc h st s) = apiRequests s @ [(h, st)]"
  by (simp_all add: apiRequests_Inc_def)

lemma WriteHeader_obs:
  "statusCode (resp (WriteHeader code s))
     = (case statusCode (resp s) of None \<Rightarrow> Some code | Some sent \<Rightarrow> Some sent)"
  "body (resp (WriteHeader code s)) = body (resp s)"
  "apiRequests (WriteHeader code s) = apiRequests s"
  by (simp_all add: WriteHeader_def split: option.splits)

lemma Write_obs:
  "statusCode (resp (Write b s))
     = (case statusCode (resp s) of None \<Rightarrow> Some StatusOK | Some sent \<Rightarrow> Some sent)"
  "body (resp (Write b s)) = body (resp s) @ b"
  "apiRequests (Write b s) = apiRequests s"
  by (simp_all add: Write_def Let_def WriteHeader_obs)

lemma http_Error_obs:
  "statusCode (resp (http_Error err code s))
     = (case statusCode (resp s) of None \<Rightarrow> Some code | Some sent \<Rightarrow> Some sent)"
  "body (resp (http_Error err code s)) = body (resp s) @ err @ [CHR 0x0A]"
  "apiRequests (http_Error err code s) = apiRequests s"
  by (simp_all add: http_Error_def Write_obs WriteHeader_obs split: option.splits)

lemmas obs = log_msg_obs apiRequests_Inc_obs WriteHeader_obs Write_obs http_Error_obs

lemma logs_obs:
  "logs (log_msg lvl msg s) = logs s @ [(lvl, msg)]"
  "logs (apiRequests_Inc h st s) = logs s"
  "logs (WriteHeader code s) = logs s"
  "logs (Write b s) = logs s"
  "logs (http_Error err code s) = logs s"
  by (simp_all add: log_msg_def apiRequests_Inc_def WriteHeader_def Write_def http_Error_def
        Let_def split: option.splits)

lemma newRequestState_obs:
  "statusCode (resp newRequestState) = None"
  "body (resp newRequestState) = []"
  "apiRequests newRequestState = []"
  by (simp_all add: newRequestState_def)

lemma Vars_demo_request: "Vars demo_request ''nodeName'' = ''unknown''"
  by (simp add: Vars_def demo_request_def)

subsection \<open>Node labels\<close>

lemma getNodeMetadata_lookup_error:
  assumes "statusCode (resp s) = None"
    and "GetNodeLabels (Vars r ''nodeName'') = Inl err"
  shows "statusCode (resp (getNodeMetadata GetNodeLabels Marshal r s))
           = Some StatusInternalServerError"
    and "body (resp (getNodeMetadata GetNodeLabels Marshal r s))
           = body (resp s) @ err @ [CHR 0x0A]"
    and "apiRequests (getNodeMetadata GetNodeLabels Marshal r s)
           = apiRequests s @ [(''getNodeMetadata'', ''500'')]"
    and "logs (getNodeMetadata GetNodeLabels Marshal r s)
           = logs s @ [(ErrorLevel, ''Could not retrieve the node labels of ''
                                      @ Vars r ''nodeName'' @ '': '' @ err)]"
  using assms by (simp_all add: getNodeMetadata_def Let_def obs logs_obs Itoa_status)

text \<open>
  C4, as stated, fails. For the node \<open>unknown\<close>, when the lookup \<open>as.GetNodeLabels\<close> reports
  that nothing is cached for the node (the error of the handler's own docstring), the handler
  answers 500 with the error text and counts the request under 500; when the lookup returns no
  labels and no error, the encoder's \<open>null\<close> is sent with 200. Neither is a not-found answer.
\<close>

theorem getNodeMetadata_unknown_node_counterexample:
  "statusCode (resp (getNodeMetadata demo_GetNodeLabels_err demo_Marshal_null demo_request
                       newRequestState)) = Some 500 \<and>
   body (resp (getNodeMetadata demo_GetNodeLabels_err demo_Marshal_null demo_request
                 newRequestState))
     = ''no cached metadata found for the node unknown'' @ [CHR 0x0A] \<and>
   apiRequests (getNodeMetadata demo_GetNodeLabels_err demo_Marshal_null demo_request
                  newRequestState) = [(''getNodeMetadata'', ''500'')] \<and>
   statusCode (resp (getNodeMetadata demo_GetNodeLabels_nil demo_Marshal_null demo_request
                       newRequestState)) = Some 200"
  by (simp add: getNodeMetadata_def Let_def obs Itoa_status status_defs newRequestState_obs
        Vars_demo_request demo_GetNodeLabels_err_def demo_GetNodeLabels_nil_def
        demo_Marshal_null_def)

text \<open>
  C4, amended. On a response writer on which nothing has been sent: when the lookup
  \<open>as.GetNodeLabels\<close> of the queried node returns an error, the handler answers 500, the body
  is the error text, the request is counted as \<open>(getNodeMetadata, 500)\<close> and the error is
  logged at error level. A failed lookup is reported as an internal error, not as not-found.
\<close>

theorem getNodeMetadata_lookup_error_500:
  assumes "statusCode (resp s) = None"
    and "GetNodeLabels (Vars r ''nodeName'') = Inl err"
  shows "statusCode (resp (getNodeMetadata GetNodeLabels Marshal r s)) = Some 500 \<and>
         body (resp (getNodeMetadata GetNodeLabels Marshal r s))
           = body (resp s) @ err @ [CHR 0x0A] \<and>
         apiRequests (getNodeMetadata GetNodeLabels Marshal r s)
           = apiRequests s @ [(''getNodeMetadata'', ''500'')] \<and>
         logs (getNodeMetadata GetNodeLabels Marshal r s)
           = logs s @ [(ErrorLevel, ''Could not retrieve the node labels of ''
                                      @ Vars r ''nodeName'' @ '': '' @ err)]"
  using getNodeMetadata_lookup_error
          [where s = s and GetNodeLabels = GetNodeLabels and r = r and err = err
             and Marshal = Marshal, OF assms]
  by (simp add: status_defs)

theorem getNodeMetadata_lookup_error_500_witness:
  "statusCode (resp newRequestState) = None \<and>
   demo_GetNodeLabels_err (Vars demo_request ''nodeName'')
     = Inl ''no cached metadata found for the node unknown'' \<and>
   statusCode (resp (getNodeMetadata demo_GetNodeLabels_err demo_Marshal_null demo_request
                       newRequestState)) = Some 500 \<and>
   body (resp (getNodeMetadata demo_GetNodeLabels_err demo_Marshal_null demo_request
                 newRequestState))
     = ''no cached metadata found for the node unknown'' @ [CHR 0x0A] \<and>
   apiRequests (getNodeMetadata demo_GetNodeLabels_err demo_Marshal_null demo_request
                  newRequestState) = [(''getNodeMetadata'', ''500'')]"
proof -
  have f: "statusCode (resp newRequestState) = None"
    by (simp add: newRequestState_obs)
  have e: "demo_GetNodeLabels_err (Vars demo_request ''nodeName'')
             = Inl ''no cached metadata found for the node unknown''"
    by (simp add: demo_GetNodeLabels_err_def Vars_demo_request)
  from getNodeMetadata_lookup_error_500
         [where s = newRequestState and GetNodeLabels = demo_GetNodeLabels_err
            and r = demo_request and Marshal = demo_Marshal_null
            and err = "''no cached metadata found for the node unknown''", OF f e]
       f e
  show ?thesis by (simp add: newRequestState_obs)
qed

subsection \<open>The request counter\<close>

text \<open>
  Two handlers keep the counter as expected on a fresh response writer: one increment, under
  their own name and the status code that was sent.
\<close>

lemma getNodeMetadata_counts_status_sent:
  assumes "statusCode (resp s) = None"
  shows "\<exists>code. statusCode (resp (getNodeMetadata GetNodeLabels Marshal r s)) = Some code \<and>
           apiRequests (getNodeMetadata GetNodeLabels Marshal r s)
             = apiRequests s @ [(''getNodeMetadata'', Itoa code)]"
  using assms by (simp add: getNodeMetadata_def Let_def obs split: sum.splits)

lemma getPodMetadata_counts_status_sent:
  assumes "statusCode (resp s) = None"
  shows "\<exists>code. statusCode (resp (getPodMetadata GetPodMetadataNames Marshal r s)) = Some code \<and>
           apiRequests (getPodMetadata GetPodMetadataNames Marshal r s)
             = apiRequests s @ [(''getPodMetadata'', Itoa code)]"
  using assms by (simp add: getPodMetadata_def Let_def obs split: sum.splits)

text \<open>
  C5 fails on the code. For \<open>GET /tags/pod\<close> with a partial aggregate that encodes, the status
  sent is 503 and the only increment is \<open>(getAllMetadata, 200)\<close>. For \<open>GET /tags/cf/apps\<close> with
  no BBS cache, the only increment is under the name \<open>getCFAppMetadata\<close>, which is not the
  handler \<open>getAllCFAppsMetadata\<close>.
\<close>

theorem getAllMetadata_counts_200_on_503:
  "statusCode (resp (getAllMetadata demo_GetAPIClient demo_AllNodes_partial demo_Marshal_null
                       demo_request newRequestState)) = Some 503 \<and>
   apiRequests (getAllMetadata demo_GetAPIClient demo_AllNodes_partial demo_Marshal_null
                  demo_request newRequestState) = [(''getAllMetadata'', ''200'')] \<and>
   statusCode (resp (getAllCFAppsMetadata demo_GetGlobalBBSCache_err demo_ExtractTags
                       demo_Marshal_null demo_request newRequestState)) = Some 500 \<and>
   apiRequests (getAllCFAppsMetadata demo_GetGlobalBBSCache_err demo_ExtractTags
                  demo_Marshal_null demo_request newRequestState)
     = [(''getCFAppMetadata'', ''500'')]"
  by (simp add: getAllMetadata_def getAllCFAppsMetadata_def Let_def obs Itoa_status
        status_defs newRequestState_obs demo_GetAPIClient_def demo_AllNodes_partial_def
        demo_Marshal_null_def demo_GetGlobalBBSCache_err_def)

subsection \<open>The whole-cluster query\<close>





subsection \<open>The pods of one node\<close>

text \<open>
  C7. \<open>json.Marshal\<close> returns an error or a JSON text, which is never empty (\<open>null\<close> for a
  nil map). For every encoder of that kind, on a response writer on which nothing has been
  sent, \<open>GET /tags/pod/{node}\<close> answers 500 with the error text when the encoding fails and
  200 with the encoded map otherwise, also when the node lookup returned an error (which is
  only logged as a warning); it never answers 404.
\<close>

theorem getPodMetadataForNode_200_or_500:
  assumes "statusCode (resp s) = None"
    and "\<forall>m b. Marshal m = Inr b \<longrightarrow> b \<noteq> []"
  shows "(case Marshal (fst (GetMetadataMapBundleOnNode (Vars r ''nodeName''))) of
            Inl err \<Rightarrow>
              statusCode (resp (getPodMetadataForNode GetMetadataMapBundleOnNode Marshal r s))
                = Some 500 \<and>
              body (resp (getPodMetadataForNode GetMetadataMapBundleOnNode Marshal r s))
                = body (resp s) @ err @ [CHR 0x0A]
          | Inr slcB \<Rightarrow>
              statusCode (resp (getPodMetadataForNode GetMetadataMapBundleOnNode Marshal r s))
                = Some 200 \<and>
              body (resp (getPodMetadataForNode GetMetadataMapBundleOnNode Marshal r s))
                = body (resp s) @ slcB) \<and>
         statusCode (resp (getPodMetadataForNode GetMetadataMapBundleOnNode Marshal r s))
           \<noteq> Some 404"
proof -
  obtain metaList errNodes
    where g: "GetMetadataMapBundleOnNode (Vars r ''nodeName'') = (metaList, errNodes)"
    by (cases "GetMetadataMapBundleOnNode (Vars r ''nodeName'')")
  show ?thesis
  proof (cases "Marshal metaList")
    case (Inl err)
    with assms(1) g show ?thesis
      by (simp add: getPodMetadataForNode_def Let_def obs status_defs split: option.splits)
  next
    case (Inr slcB)
    with assms(2) have "slcB \<noteq> []" by blast
    with Inr assms(1) g show ?thesis
      by (simp add: getPodMetadataForNode_def Let_def obs status_defs split: option.splits)
  qed
qed

theorem getPodMetadataForNode_200_or_500_witness:
  "statusCode (resp newRequestState) = None \<and>
   demo_Marshal_null [] = Inr ''null'' \<and>
   fst (demo_OnNode_empty (Vars demo_request ''nodeName'')) = [] \<and>
   statusCode (resp (getPodMetadataForNode demo_OnNode_empty demo_Marshal_null demo_request
                       newRequestState)) = Some 200 \<and>
   body (resp (getPodMetadataForNode demo_OnNode_empty demo_Marshal_null demo_request
                 newRequestState)) = ''null'' \<and>
   statusCode (resp (getPodMetadataForNode demo_OnNode_empty demo_Marshal_null demo_request
                       newRequestState)) \<noteq> Some 404"
proof -
  have f: "statusCode (resp newRequestState) = None"
    by (simp add: newRequestState_obs)
  have n: "\<forall>m b. demo_Marshal_null m = Inr b \<longrightarrow> b \<noteq> []"
    by (simp add: demo_Marshal_null_def)
  have e: "fst (demo_OnNode_empty (Vars demo_request ''nodeName'')) = []"
    by (simp add: demo_OnNode_empty_def)
  have m: "demo_Marshal_null (fst (demo_OnNode_empty (Vars demo_request ''nodeName'')))
             = Inr ''null''"
    by (simp add: demo_Marshal_null_def)
  from getPodMetadataForNode_200_or_500
         [where s = newRequestState and Marshal = demo_Marshal_null
            and GetMetadataMapBundleOnNode = demo_OnNode_empty and r = demo_request, OF f n]
  have "statusCode (resp (getPodMetadataForNode demo_OnNode_empty demo_Marshal_null
                            demo_request newRequestState)) = Some 200 \<and>
        body (resp (getPodMetadataForNode demo_OnNode_empty demo_Marshal_null demo_request
                      newRequestState)) = body (resp newRequestState) @ ''null'' \<and>
        statusCode (resp (getPodMetadataForNode demo_OnNode_empty demo_Marshal_null
                            demo_request newRequestState)) \<noteq> Some 404"
    by (simp add: m)
  with f e show ?thesis by (simp add: newRequestState_obs demo_Marshal_null_def)
qed


section \<open>Properties of the aggregator\<close>

lemma addTag_idem: "addTag t x (addTag t x pb) = addTag t x pb"
  by (cases x) (simp add: addTag_def Let_def)

lemma addTag_commute: "addTag t x (addTag t y pb) = addTag t y (addTag t x pb)"
proof (cases x, cases y)
  fix n k n' k'
  assume x: "x = (n, k)" and y: "y = (n', k')"
  show ?thesis
  proof (cases "n = n'")
    case False
    then show ?thesis
      unfolding x y by (simp add: addTag_def Let_def fun_upd_twist)
  next
    case True
    show ?thesis
    proof (cases "k = k'")
      case True
      with \<open>n = n'\<close> show ?thesis unfolding x y by simp
    next
      case False
      with \<open>n = n'\<close> show ?thesis
        unfolding x y by (simp add: addTag_def Let_def fun_upd_twist)
    qed
  qed
qed

lemma fold_addTag_step: "fold (addTag t) xs (addTag t x pb) = addTag t x (fold (addTag t) xs pb)"
proof (induction xs arbitrary: pb)
  case Nil
  show ?case by simp
next
  case (Cons y xs)
  have "fold (addTag t) (y # xs) (addTag t x pb) = fold (addTag t) xs (addTag t x (addTag t y pb))"
    by (simp add: addTag_commute [of t y x])
  also have "\<dots> = addTag t x (fold (addTag t) xs (addTag t y pb))"
    by (rule Cons.IH)
  finally show ?case by simp
qed

lemma fold_addTag_idem:
  "fold (addTag t) xs (fold (addTag t) xs pb) = fold (addTag t) xs pb"
proof (induction xs arbitrary: pb)
  case Nil
  show ?case by simp
next
  case (Cons x xs)
  have "fold (addTag t) (x # xs) (fold (addTag t) (x # xs) pb)
          = fold (addTag t) xs (addTag t x (addTag t x (fold (addTag t) xs pb)))"
    by (simp add: fold_addTag_step)
  also have "\<dots> = addTag t x (fold (addTag t) xs (fold (addTag t) xs pb))"
    by (simp add: addTag_idem fold_addTag_step)
  also have "\<dots> = addTag t x (fold (addTag t) xs pb)"
    by (simp add: Cons.IH)
  finally show ?case by (simp add: fold_addTag_step)
qed

text \<open>
  C8. Applying an Add event twice gives the same bundles as applying it once, for every state
  of the bundles and every Node-add and Endpoint-add event.
\<close>

theorem applyEvent_add_idempotent:
  "isAdd e \<Longrightarrow> applyEvent e (applyEvent e b) = applyEvent e b"
  by (cases e) (simp_all add: isAdd_def fold_addTag_idem)

theorem applyEvent_add_idempotent_witness:
  "isAdd demo_endpoint_add \<and>
   applyEvent demo_endpoint_add (applyEvent demo_endpoint_add emptyBundles)
     = applyEvent demo_endpoint_add emptyBundles \<and>
   byPod (applyEvent demo_endpoint_add (applyEvent demo_endpoint_add emptyBundles))
     ''n1'' ''default'' ''p1'' = Some {''kube_service:svc-a''}"
proof -
  have a: "isAdd demo_endpoint_add"
    by (simp add: isAdd_def demo_endpoint_add_def)
  have q: "byPod (applyEvent demo_endpoint_add emptyBundles) ''n1'' ''default'' ''p1''
             = Some {''kube_service:svc-a''}"
    by (simp add: byPod_def demo_endpoint_add_def emptyBundles_def addTag_def serviceTag_def
          Let_def)
  from applyEvent_add_idempotent [OF a, of emptyBundles] a q show ?thesis by simp
qed


section \<open>Properties of the process\<close>







end
